theory Spec2Isabelle
  imports Complex_Main "HOL-Library.Word" "HOL-Library.Log_Nat"
begin

unbundle bit_operations_syntax

section \<open>Python values and exceptions\<close>

text \<open>
  The driver is \<^verbatim>\<open>minimalmodbus.py\<close>. A \<^verbatim>\<open>bytearray\<close> is a list of 8-bit words, a
  Python \<^verbatim>\<open>int\<close> is an \<open>int\<close>. The functions of the driver tell a \<^verbatim>\<open>bytearray\<close> from
  a \<^verbatim>\<open>str\<close> (\<^verbatim>\<open>_checkString\<close> raises \<^verbatim>\<open>TypeError\<close> on anything that is not a
  \<^verbatim>\<open>bytearray\<close>), so data that can be either, or \<^verbatim>\<open>None\<close>, is a \<open>pydata\<close>.
\<close>

type_synonym byte = "8 word"

datatype pydata = Bytearray "byte list" | Str string | NoneValue

text \<open>
  Every \<^verbatim>\<open>raise\<close> of the source is a value. The driver raises \<^verbatim>\<open>TypeError\<close>,
  \<^verbatim>\<open>ValueError\<close> and \<^verbatim>\<open>IOError\<close>; the text of the exception tells the raise sites
  apart, and is kept as a \<open>message\<close> (with the \<^verbatim>\<open>description\<close> argument where the
  source formats it into the text). \<^verbatim>\<open>OverflowError\<close> is what Python raises where an
  integer does not fit a float, or an infinite float is turned into an integer.
\<close>

datatype message =
    MaxvalueBelowMinvalue
  | TooSmall string
  | TooLarge string
  | TooShort string
  | TooLong string
  | MaxlengthNegative
  | MaxlengthBelowMinlength
  | UnrecognizedMode
  | FunctioncodeNotAllowed
  | PackFailed
  | UnpackFailed
  | TooShortResponse
  | ChecksumError
  | WrongSlaveAddress
  | SlaveIndicatesError
  | WrongFunctioncode
  | WrongFunctioncodeForPayload
  | NoAnswer
  | LocalEchoMismatch
  | WrongByteCount
  | WrongStartAddress
  | WrongNumberOfRegisters
  | WrongWriteData

datatype exn = TypeError | ValueError message | IOError message | OverflowError

fun bind_exn :: "exn + 'a \<Rightarrow> ('a \<Rightarrow> exn + 'b) \<Rightarrow> exn + 'b" where
  "bind_exn (Inl e) f = Inl e"
| "bind_exn (Inr x) f = f x"

fun andthen :: "exn + unit \<Rightarrow> exn + 'b \<Rightarrow> exn + 'b" where
  "andthen (Inl e) k = Inl e"
| "andthen (Inr u) k = k"

section \<open>Argument checks\<close>

text \<open>
  \<^verbatim>\<open>_checkNumerical(inputvalue, minvalue, maxvalue, description)\<close>. The \<^verbatim>\<open>isinstance\<close>
  tests are decided by the types of the model; \<^verbatim>\<open>None\<close> bounds are \<open>None\<close>.
\<close>

definition checkNumerical :: "'a::linorder \<Rightarrow> 'a option \<Rightarrow> 'a option \<Rightarrow> string \<Rightarrow> exn + unit" where
  "checkNumerical inputvalue minvalue maxvalue description =
     (if (case minvalue of None \<Rightarrow> False
          | Some lo \<Rightarrow> (case maxvalue of None \<Rightarrow> False | Some hi \<Rightarrow> hi < lo))
      then Inl (ValueError MaxvalueBelowMinvalue)
      else if (case minvalue of None \<Rightarrow> False | Some lo \<Rightarrow> inputvalue < lo)
      then Inl (ValueError (TooSmall description))
      else if (case maxvalue of None \<Rightarrow> False | Some hi \<Rightarrow> hi < inputvalue)
      then Inl (ValueError (TooLarge description))
      else Inr ())"

definition checkInt :: "int \<Rightarrow> int option \<Rightarrow> int option \<Rightarrow> string \<Rightarrow> exn + unit" where
  "checkInt inputvalue minvalue maxvalue description =
     checkNumerical inputvalue minvalue maxvalue description"

text \<open>\<^verbatim>\<open>_checkString(inputstring, description, minlength=0, maxlength=None)\<close>.\<close>

definition checkString :: "pydata \<Rightarrow> string \<Rightarrow> int \<Rightarrow> int option \<Rightarrow> exn + unit" where
  "checkString inputstring description minlength maxlength =
     (case inputstring of
        Str s \<Rightarrow> Inl TypeError
      | NoneValue \<Rightarrow> Inl TypeError
      | Bytearray bs \<Rightarrow>
          andthen (checkInt minlength (Some 0) None ''minlength'')
            (if int (length bs) < minlength then Inl (ValueError (TooShort description))
             else (case maxlength of
                None \<Rightarrow> Inr ()
              | Some m \<Rightarrow>
                  if m < 0 then Inl (ValueError MaxlengthNegative)
                  else if m < minlength then Inl (ValueError MaxlengthBelowMinlength)
                  else if m < int (length bs) then Inl (ValueError (TooLong description))
                  else Inr ())))"

text \<open>\<^verbatim>\<open>_checkMode\<close>: the only mode is \<^verbatim>\<open>MODE_RTU = 'rtu'\<close>.\<close>

definition MODE_RTU :: string where
  "MODE_RTU = ''rtu''"

definition checkMode :: "string \<Rightarrow> exn + unit" where
  "checkMode mode =
     (if mode \<in> set [MODE_RTU] then Inr () else Inl (ValueError UnrecognizedMode))"

text \<open>
  \<^verbatim>\<open>_checkFunctioncode(functioncode, listOfAllowedValues)\<close>: the range 1..127, then
  (when a list is given) every element of the list is range-checked in turn, then
  membership.
\<close>

fun checkAllowedValues :: "int list \<Rightarrow> exn + unit" where
  "checkAllowedValues [] = Inr ()"
| "checkAllowedValues (v # vs) =
     andthen (checkInt v (Some 1) (Some 127) ''functioncode inside listOfAllowedValues'')
       (checkAllowedValues vs)"

definition checkFunctioncode :: "int \<Rightarrow> int list option \<Rightarrow> exn + unit" where
  "checkFunctioncode functioncode listOfAllowedValues =
     andthen (checkInt functioncode (Some 1) (Some 127) ''functioncode'')
       (case listOfAllowedValues of
          None \<Rightarrow> Inr ()
        | Some vs \<Rightarrow>
            andthen (checkAllowedValues vs)
              (if functioncode \<in> set vs then Inr ()
               else Inl (ValueError FunctioncodeNotAllowed)))"

definition checkSlaveaddress :: "int \<Rightarrow> exn + unit" where
  "checkSlaveaddress slaveaddress = checkInt slaveaddress (Some 0) (Some 247) ''slaveaddress''"

definition checkRegisteraddress :: "int \<Rightarrow> exn + unit" where
  "checkRegisteraddress registeraddress =
     checkInt registeraddress (Some 0) (Some 0xFFFF) ''registeraddress''"

section \<open>Numbers to bytes and back\<close>

text \<open>\<^verbatim>\<open>_numToOneByteArray\<close>.\<close>

definition numToOneByteArray :: "int \<Rightarrow> exn + byte list" where
  "numToOneByteArray inputvalue =
     andthen (checkInt inputvalue (Some 0) (Some 0xFF) ''inputvalue'')
       (Inr [word_of_int inputvalue])"

text \<open>
  \<^verbatim>\<open>struct.pack\<close> and \<^verbatim>\<open>struct.unpack\<close> are Python's library, not code of the driver.
  They are taken as the library documents them, for the four format strings the driver
  builds: \<^verbatim>\<open>H\<close> is an unsigned and \<^verbatim>\<open>h\<close> a two's complement 16-bit integer,
  \<^verbatim>\<open>></\<close> puts the high byte first and \<^verbatim>\<open><\<close> the low byte, a value out of range
  and a buffer of the wrong size raise \<^verbatim>\<open>struct.error\<close> (\<open>None\<close> here).
\<close>

definition struct_pack :: "string \<Rightarrow> int \<Rightarrow> byte list option" where
  "struct_pack formatstring v =
     (if formatstring = ''>H'' \<or> formatstring = ''<H'' then
        (if 0 \<le> v \<and> v \<le> 65535
         then Some (if formatstring = ''>H''
                    then [word_of_int (v div 256), word_of_int (v mod 256)]
                    else [word_of_int (v mod 256), word_of_int (v div 256)])
         else None)
      else if formatstring = ''>h'' \<or> formatstring = ''<h'' then
        (if - 32768 \<le> v \<and> v \<le> 32767
         then Some (if formatstring = ''>h''
                    then [word_of_int (v div 256), word_of_int (v mod 256)]
                    else [word_of_int (v mod 256), word_of_int (v div 256)])
         else None)
      else None)"

definition struct_unpack :: "string \<Rightarrow> byte list \<Rightarrow> int option" where
  "struct_unpack formatstring packed =
     (case packed of
        [b0, b1] \<Rightarrow>
          if formatstring = ''>H'' then Some (uint b0 * 256 + uint b1)
          else if formatstring = ''<H'' then Some (uint b1 * 256 + uint b0)
          else if formatstring = ''>h'' then Some (sint b0 * 256 + uint b1)
          else if formatstring = ''<h'' then Some (sint b1 * 256 + uint b0)
          else None
      | _ \<Rightarrow> None)"

text \<open>\<^verbatim>\<open>_pack\<close> and \<^verbatim>\<open>_unpack\<close> turn the library's error into a \<^verbatim>\<open>ValueError\<close>.\<close>

definition pack :: "string \<Rightarrow> int \<Rightarrow> exn + byte list" where
  "pack formatstring v =
     (case struct_pack formatstring v of
        None \<Rightarrow> Inl (ValueError PackFailed)
      | Some result \<Rightarrow> Inr result)"

definition unpack :: "string \<Rightarrow> byte list \<Rightarrow> exn + int" where
  "unpack formatstring packed =
     andthen (checkString (Bytearray packed) ''packed string'' 1 None)
       (case struct_unpack formatstring packed of
          None \<Rightarrow> Inl (ValueError UnpackFailed)
        | Some v \<Rightarrow> Inr v)"

text \<open>
  Python's \<^verbatim>\<open>float(n)\<close> for an integer \<^verbatim>\<open>n\<close>, in the double precision of CPython: the
  nearest number with 53 significant bits, a tie going to the even one. The float that
  comes out is itself an integer, and is given as that integer; \<open>None\<close> is where the
  conversion raises \<^verbatim>\<open>OverflowError\<close>. The product of two floats that are integers is
  the same rounding of their exact product, and \<open>None\<close> is then the infinite float.
\<close>

definition float_of_int :: "int \<Rightarrow> int option" where
  "float_of_int n =
     (if \<bar>n\<bar> < 2 ^ 53 then Some n
      else
        let s = nat (bitlen \<bar>n\<bar> - 53);
            q = \<bar>n\<bar> div 2 ^ s;
            r = \<bar>n\<bar> mod 2 ^ s;
            half = 2 ^ (s - 1);
            rounded = (if half < r \<or> (r = half \<and> q mod 2 = 1) then q + 1 else q) * 2 ^ s
        in if 2 ^ 1024 \<le> rounded then None else Some (sgn n * rounded))"

text \<open>
  \<^verbatim>\<open>_numToTwoByteArray(value, numberOfDecimals, LsbFirst, signed)\<close> for an integer
  \<^verbatim>\<open>value\<close>; a \<^verbatim>\<open>value\<close> that is a float is outside this model. The source computes
  \<^verbatim>\<open>int(float(value) * 10 ** numberOfDecimals)\<close>: the value is converted, the power of
  ten (an integer) is converted for the multiplication, the product is rounded, and
  \<^verbatim>\<open>int\<close> of a float that is an integer is that integer, or raises when the product is
  infinite. The closing \<^verbatim>\<open>assert len(outstring) == 2\<close> holds of every result of
  \<open>struct_pack\<close>.
\<close>

definition numToTwoByteArray :: "int \<Rightarrow> int \<Rightarrow> bool \<Rightarrow> bool \<Rightarrow> exn + byte list" where
  "numToTwoByteArray v numberOfDecimals LsbFirst is_signed =
     andthen (checkInt numberOfDecimals (Some 0) None ''number of decimals'')
       (let multiplier = 10 ^ nat numberOfDecimals;
            formatcode = (if LsbFirst then ''<'' else ''>'') @ (if is_signed then ''h'' else ''H'')
        in case float_of_int v of
             None \<Rightarrow> Inl OverflowError
           | Some float_value \<Rightarrow>
               (case float_of_int multiplier of
                  None \<Rightarrow> Inl OverflowError
                | Some float_multiplier \<Rightarrow>
                    (case float_of_int (float_value * float_multiplier) of
                       None \<Rightarrow> Inl OverflowError
                     | Some integer \<Rightarrow> pack formatcode integer)))"

text \<open>
  \<^verbatim>\<open>_twoByteStringToNum(bytearray, numberOfDecimals=0, signed)\<close> at
  \<^verbatim>\<open>numberOfDecimals == 0\<close>, where it returns the unpacked integer. With decimals it
  returns a float, which is not modelled.
\<close>

definition twoByteStringToNum :: "byte list \<Rightarrow> bool \<Rightarrow> exn + int" where
  "twoByteStringToNum bytearray is_signed =
     andthen (checkString (Bytearray bytearray) ''bytearray'' 2 (Some 2))
       (andthen (checkInt 0 (Some 0) None ''number of decimals'')
          (unpack (''>'' @ (if is_signed then ''h'' else ''H'')) bytearray))"

text \<open>\<^verbatim>\<open>_setBitOn(x, bitNum)\<close> is \<^verbatim>\<open>x | (1 << bitNum)\<close>.\<close>

definition setBitOn :: "int \<Rightarrow> int \<Rightarrow> exn + int" where
  "setBitOn x bitNum =
     andthen (checkInt x (Some 0) None ''input value'')
       (andthen (checkInt bitNum (Some 0) None ''bitnumber'')
          (Inr (x OR push_bit (nat bitNum) 1)))"

section \<open>CRC16\<close>

text \<open>The table \<^verbatim>\<open>_CRC16TABLE\<close>.\<close>

definition CRC16TABLE :: "int list" where
  "CRC16TABLE = [
        0, 49345, 49537,   320, 49921,   960,   640, 49729, 50689,  1728,  1920,
    51009,  1280, 50625, 50305,  1088, 52225,  3264,  3456, 52545,  3840, 53185,
    52865,  3648,  2560, 51905, 52097,  2880, 51457,  2496,  2176, 51265, 55297,
     6336,  6528, 55617,  6912, 56257, 55937,  6720,  7680, 57025, 57217,  8000,
    56577,  7616,  7296, 56385,  5120, 54465, 54657,  5440, 55041,  6080,  5760,
    54849, 53761,  4800,  4992, 54081,  4352, 53697, 53377,  4160, 61441, 12480,
    12672, 61761, 13056, 62401, 62081, 12864, 13824, 63169, 63361, 14144, 62721,
    13760, 13440, 62529, 15360, 64705, 64897, 15680, 65281, 16320, 16000, 65089,
    64001, 15040, 15232, 64321, 14592, 63937, 63617, 14400, 10240, 59585, 59777,
    10560, 60161, 11200, 10880, 59969, 60929, 11968, 12160, 61249, 11520, 60865,
    60545, 11328, 58369,  9408,  9600, 58689,  9984, 59329, 59009,  9792,  8704,
    58049, 58241,  9024, 57601,  8640,  8320, 57409, 40961, 24768, 24960, 41281,
    25344, 41921, 41601, 25152, 26112, 42689, 42881, 26432, 42241, 26048, 25728,
    42049, 27648, 44225, 44417, 27968, 44801, 28608, 28288, 44609, 43521, 27328,
    27520, 43841, 26880, 43457, 43137, 26688, 30720, 47297, 47489, 31040, 47873,
    31680, 31360, 47681, 48641, 32448, 32640, 48961, 32000, 48577, 48257, 31808,
    46081, 29888, 30080, 46401, 30464, 47041, 46721, 30272, 29184, 45761, 45953,
    29504, 45313, 29120, 28800, 45121, 20480, 37057, 37249, 20800, 37633, 21440,
    21120, 37441, 38401, 22208, 22400, 38721, 21760, 38337, 38017, 21568, 39937,
    23744, 23936, 40257, 24320, 40897, 40577, 24128, 23040, 39617, 39809, 23360,
    39169, 22976, 22656, 38977, 34817, 18624, 18816, 35137, 19200, 35777, 35457,
    19008, 19968, 36545, 36737, 20288, 36097, 19904, 19584, 35905, 17408, 33985,
    34177, 17728, 34561, 18368, 18048, 34369, 33281, 17088, 17280, 33601, 16640,
    33217, 32897, 16448]"

text \<open>
  \<^verbatim>\<open>_calculateCrcString\<close>: the loop over the characters, from the register \<^verbatim>\<open>0xFFFF\<close>.
  The source runs the loop inside \<^verbatim>\<open>try\<close> after a \<^verbatim>\<open>_checkString\<close>, and runs the same
  loop in the \<^verbatim>\<open>except\<close> branch; on a sequence of bytes no step of the loop raises, so
  both ways compute \<open>crc_loop\<close>. The register is then packed low byte first.
\<close>

fun crc_loop :: "int \<Rightarrow> byte list \<Rightarrow> int" where
  "crc_loop register [] = register"
| "crc_loop register (char # inputstring) =
     crc_loop (drop_bit 8 register XOR CRC16TABLE ! nat ((register XOR uint char) AND 0xFF))
       inputstring"

definition calculateCrcString :: "byte list \<Rightarrow> exn + byte list" where
  "calculateCrcString inputstring = numToTwoByteArray (crc_loop 0xFFFF inputstring) 0 True False"

text \<open>
  The Modbus CRC16 as the specification words it: the reflected polynomial \<^verbatim>\<open>0xA001\<close>,
  one bit at a time, the register preloaded with \<^verbatim>\<open>0xFFFF\<close>.
\<close>

definition reference_crc16_bit :: "int \<Rightarrow> int" where
  "reference_crc16_bit r = (if odd r then drop_bit 1 r XOR 0xA001 else drop_bit 1 r)"

definition reference_crc16_byte :: "int \<Rightarrow> int" where
  "reference_crc16_byte r =
     reference_crc16_bit (reference_crc16_bit (reference_crc16_bit (reference_crc16_bit
       (reference_crc16_bit (reference_crc16_bit (reference_crc16_bit (reference_crc16_bit r)))))))"

fun reference_crc16 :: "int \<Rightarrow> byte list \<Rightarrow> int" where
  "reference_crc16 register [] = register"
| "reference_crc16 register (char # inputstring) =
     reference_crc16 (reference_crc16_byte (register XOR uint char)) inputstring"

section \<open>Building and validating frames\<close>

text \<open>\<^verbatim>\<open>_embedPayload(slaveaddress, mode, functioncode, payloaddata)\<close>.\<close>

definition embedPayload :: "int \<Rightarrow> string \<Rightarrow> int \<Rightarrow> byte list \<Rightarrow> exn + byte list" where
  "embedPayload slaveaddress mode functioncode payloaddata =
     andthen (checkSlaveaddress slaveaddress)
    (andthen (checkMode mode)
    (andthen (checkFunctioncode functioncode None)
    (andthen (checkString (Bytearray payloaddata) ''payload'' 0 None)
    (bind_exn (numToOneByteArray slaveaddress) (\<lambda>a.
     bind_exn (numToOneByteArray functioncode) (\<lambda>f.
     let firstPart = a @ f @ payloaddata in
     bind_exn (calculateCrcString firstPart) (\<lambda>crc.
     Inr (firstPart @ crc))))))))"

text \<open>
  \<^verbatim>\<open>_extractPayload(response, slaveaddress, mode, functioncode)\<close>. The slices are
  Python's: \<^verbatim>\<open>response[-2:]\<close> is the last two bytes, \<^verbatim>\<open>response[0 : len - 2]\<close> all but
  them, \<^verbatim>\<open>response[2 : len - 2]\<close> what lies between the two start bytes and the CRC. The
  reads \<^verbatim>\<open>response[0]\<close> and \<^verbatim>\<open>response[1]\<close> come after the length check.
\<close>

definition extractPayload :: "byte list \<Rightarrow> int \<Rightarrow> string \<Rightarrow> int \<Rightarrow> exn + byte list" where
  "extractPayload response slaveaddress mode functioncode =
     andthen (checkSlaveaddress slaveaddress)
    (andthen (checkMode mode)
    (andthen (checkFunctioncode functioncode None)
    (if length response < 2 + 2 then Inl (ValueError TooShortResponse)
     else
       let receivedChecksum = drop (length response - 2) response;
           responseWithoutChecksum = take (length response - 2) response
       in bind_exn (calculateCrcString responseWithoutChecksum) (\<lambda>calculatedChecksum.
          if receivedChecksum \<noteq> calculatedChecksum then Inl (ValueError ChecksumError)
          else
            let responseaddress = uint (response ! 0) in
            if responseaddress \<noteq> slaveaddress then Inl (ValueError WrongSlaveAddress)
            else
              let receivedFunctioncode = uint (response ! 1) in
              bind_exn (setBitOn functioncode 7) (\<lambda>errorcode.
              if receivedFunctioncode = errorcode then Inl (ValueError SlaveIndicatesError)
              else if receivedFunctioncode \<noteq> functioncode then Inl (ValueError WrongFunctioncode)
              else Inr (drop 2 (take (length response - 2) response)))))))"

section \<open>Predicting the size of the response\<close>

text \<open>
  \<^verbatim>\<open>_predictResponseSize(mode, functioncode, payloadToSlave)\<close>. Inside the branch for
  the function codes 1 to 4 the source has an \<^verbatim>\<open>if\<close> for 1 and 2 and an \<^verbatim>\<open>elif\<close> for 3
  and 4, which leaves no other case.
\<close>

definition predictResponseSize :: "string \<Rightarrow> int \<Rightarrow> byte list \<Rightarrow> exn + int" where
  "predictResponseSize mode functioncode payloadToSlave =
     andthen (checkMode mode)
    (andthen (checkFunctioncode functioncode None)
    (andthen (checkString (Bytearray payloadToSlave) ''payload'' 4 None)
    (bind_exn
       (if functioncode \<in> set [5, 6, 15, 16] then Inr 4
        else if functioncode \<in> set [1, 2, 3, 4] then
          bind_exn (twoByteStringToNum (take (4 - 2) (drop 2 payloadToSlave)) False) (\<lambda>given_size.
            if functioncode = 1 \<or> functioncode = 2
            then Inr (1 + given_size div 8 + (if given_size mod 8 = 0 then 0 else 1))
            else Inr (1 + given_size * 2))
        else Inl (ValueError WrongFunctioncodeForPayload))
       (\<lambda>response_payload_size. Inr (2 + response_payload_size + 2)))))"

section \<open>The silent period\<close>

text \<open>
  \<^verbatim>\<open>_calculate_minimum_silent_period(baudrate)\<close> for an integer baud rate, as far as it
  can raise: the check of the argument, and the conversion \<^verbatim>\<open>float(baudrate)\<close>. The
  division by a float of at least 1 and the two multiplications that follow do not raise.
  The period they return is a float; it is used only to decide whether, and for how long,
  the transaction sleeps before it writes. Floating-point values and the sleep are not
  part of this model.
\<close>

definition calculate_minimum_silent_period :: "int \<Rightarrow> exn + unit" where
  "calculate_minimum_silent_period baudrate =
     andthen (checkNumerical baudrate (Some 1) None ''baudrate'')
       (case float_of_int baudrate of
          None \<Rightarrow> Inl OverflowError
        | Some float_baudrate \<Rightarrow> Inr ())"

section \<open>Bit patterns and the checks of a response's contents\<close>

text \<open>
  \<^verbatim>\<open>_createBitpattern(functioncode, value)\<close> returns string literals
  (\<^verbatim>\<open>'\x00\x00'\<close>, \<^verbatim>\<open>'\xff\x00'\<close>, \<^verbatim>\<open>'\x00'\<close>, \<^verbatim>\<open>'\x01'\<close>), that is a \<^verbatim>\<open>str\<close>, and
  falls off its end (returning \<^verbatim>\<open>None\<close>) when no branch is taken.
\<close>

definition createBitpattern :: "int \<Rightarrow> int \<Rightarrow> exn + pydata" where
  "createBitpattern functioncode v =
     andthen (checkFunctioncode functioncode (Some [5, 15]))
    (andthen (checkInt v (Some 0) (Some 1) ''inputvalue'')
    (if functioncode = 5 then
       (if v = 0 then Inr (Str [CHR 0x00, CHR 0x00]) else Inr (Str [CHR 0xFF, CHR 0x00]))
     else if functioncode = 15 then
       (if v = 0 then Inr (Str [CHR 0x00]) else Inr (Str [CHR 0x01]))
     else Inr NoneValue))"

text \<open>\<^verbatim>\<open>_checkResponseByteCount(payload)\<close>.\<close>

definition checkResponseByteCount :: "byte list \<Rightarrow> exn + unit" where
  "checkResponseByteCount payload =
     andthen (checkString (Bytearray payload) ''payload'' 1 None)
       (let givenNumberOfDatabytes = uint (payload ! 0);
            countedNumberOfDatabytes = int (length payload) - 1
        in if givenNumberOfDatabytes = countedNumberOfDatabytes then Inr ()
           else Inl (ValueError WrongByteCount))"

text \<open>\<^verbatim>\<open>_checkResponseRegisterAddress(payload, registeraddress)\<close>.\<close>

definition checkResponseRegisterAddress :: "byte list \<Rightarrow> int \<Rightarrow> exn + unit" where
  "checkResponseRegisterAddress payload registeraddress =
     andthen (checkString (Bytearray payload) ''payload'' 2 None)
    (andthen (checkRegisteraddress registeraddress)
    (bind_exn (twoByteStringToNum (take 2 payload) False) (\<lambda>receivedStartAddress.
       if receivedStartAddress = registeraddress then Inr ()
       else Inl (ValueError WrongStartAddress))))"

text \<open>\<^verbatim>\<open>_checkResponseNumberOfRegisters(payload, numberOfRegisters)\<close>.\<close>

definition checkResponseNumberOfRegisters :: "byte list \<Rightarrow> int \<Rightarrow> exn + unit" where
  "checkResponseNumberOfRegisters payload numberOfRegisters =
     andthen (checkString (Bytearray payload) ''payload'' 4 None)
    (andthen (checkInt numberOfRegisters (Some 1) (Some 0xFFFF) ''numberOfRegisters'')
    (bind_exn (twoByteStringToNum (take (4 - 2) (drop 2 payload)) False)
       (\<lambda>receivedNumberOfWrittenReisters.
          if receivedNumberOfWrittenReisters = numberOfRegisters then Inr ()
          else Inl (ValueError WrongNumberOfRegisters))))"

text \<open>
  \<^verbatim>\<open>_checkResponseWriteData(payload, writedata)\<close>. The callers pass as
  \<^verbatim>\<open>writedata\<close> the result of \<^verbatim>\<open>_numToTwoByteArray\<close> (a \<^verbatim>\<open>bytearray\<close>) or the
  result of \<^verbatim>\<open>_createBitpattern\<close>.
\<close>

definition checkResponseWriteData :: "byte list \<Rightarrow> pydata \<Rightarrow> exn + unit" where
  "checkResponseWriteData payload writedata =
     andthen (checkString (Bytearray payload) ''payload'' 4 None)
    (andthen (checkString writedata ''writedata'' 2 (Some 2))
    (let receivedWritedata = take (4 - 2) (drop 2 payload)
     in if Bytearray receivedWritedata = writedata then Inr ()
        else Inl (ValueError WrongWriteData)))"

text \<open>
  The part of \<^verbatim>\<open>Instrument._genericCommand\<close> headed ``Check the contents in the
  response payload'', for an integer \<^verbatim>\<open>value\<close>: six \<^verbatim>\<open>if\<close> statements in a row, each
  of which may raise.
\<close>

definition checkResponseContents ::
    "int \<Rightarrow> int \<Rightarrow> int \<Rightarrow> int \<Rightarrow> bool \<Rightarrow> int \<Rightarrow> byte list \<Rightarrow> exn + unit" where
  "checkResponseContents functioncode registeraddress v numberOfDecimals is_signed
       numberOfRegisters payloadFromSlave =
     andthen (if functioncode \<in> set [1, 2, 3, 4]
              then checkResponseByteCount payloadFromSlave else Inr ())
    (andthen (if functioncode \<in> set [5, 6, 15, 16]
              then checkResponseRegisterAddress payloadFromSlave registeraddress else Inr ())
    (andthen (if functioncode = 5
              then bind_exn (createBitpattern functioncode v)
                     (checkResponseWriteData payloadFromSlave)
              else Inr ())
    (andthen (if functioncode = 6
              then bind_exn (numToTwoByteArray v numberOfDecimals False is_signed)
                     (\<lambda>writedata. checkResponseWriteData payloadFromSlave (Bytearray writedata))
              else Inr ())
    (andthen (if functioncode = 15
              then checkResponseNumberOfRegisters payloadFromSlave 1 else Inr ())
    (if functioncode = 16
     then checkResponseNumberOfRegisters payloadFromSlave numberOfRegisters else Inr ())))))"

section \<open>The instrument and a transaction\<close>

text \<open>
  The fields of \<^verbatim>\<open>Instrument\<close> that the transaction reads. The serial settings other
  than the baud rate only configure the UART, and \<^verbatim>\<open>debug\<close> only prints. The baud
  rate is the integer that the UART is opened with.
\<close>

record instrument =
  port :: int
  address :: int
  mode :: string
  baudrate :: int
  precalculate_read_size :: bool
  handle_local_echo :: bool

text \<open>
  \<^verbatim>\<open>_LATEST_READ_TIMES\<close> is a dictionary of the module, from the port to a value of
  \<^verbatim>\<open>time.ticks_ms()\<close>. Every instrument reads and writes the same dictionary, so it
  is passed to a transaction and returned by it.
\<close>

type_synonym read_times = "int \<rightharpoonup> int"

text \<open>
  What the outside gives to one call of \<^verbatim>\<open>_communicate\<close>: the value of
  \<^verbatim>\<open>time.ticks_ms()\<close> that is stored after the read of the response, and the bytes that
  the UART delivers, in order; \<^verbatim>\<open>serial.read(n)\<close> takes up to \<^verbatim>\<open>n\<close> of them. The two
  earlier values of \<^verbatim>\<open>time.ticks_ms()\<close> only serve the sleep and the debug output.
\<close>

record world =
  ticks_after_read :: int
  incoming :: "byte list"

text \<open>What a transaction does to the port.\<close>

datatype event = Write "byte list" | Read int

definition serial_read :: "int \<Rightarrow> byte list \<Rightarrow> byte list" where
  "serial_read n available = take (nat n) available"

text \<open>
  \<^verbatim>\<open>Instrument._communicate(request, number_of_bytes_to_read)\<close>: the result or the
  exception, the dictionary afterwards, and the writes and reads in order. Between the
  computation of the silent period and the write the source may call
  \<^verbatim>\<open>time.sleep_ms\<close>; see above.
\<close>

definition communicate ::
    "instrument \<Rightarrow> world \<Rightarrow> read_times \<Rightarrow> byte list \<Rightarrow> int
       \<Rightarrow> (exn + byte list) \<times> read_times \<times> event list" where
  "communicate self w latest_read_times request number_of_bytes_to_read =
     (case andthen (checkString (Bytearray request) ''request'' 1 None)
             (andthen (checkInt number_of_bytes_to_read None None ''inputvalue'')
                (calculate_minimum_silent_period (baudrate self))) of
        Inl e \<Rightarrow> (Inl e, latest_read_times, [])
      | Inr minimum_silent_period \<Rightarrow>
          let localEchoToDiscard = serial_read (int (length request)) (incoming w);
              echoing =
                (if handle_local_echo self then [Read (int (length request))] else [])
          in if handle_local_echo self \<and> localEchoToDiscard \<noteq> request
             then (Inl (IOError LocalEchoMismatch), latest_read_times,
                   [Write request] @ echoing)
             else
               let remaining =
                     (if handle_local_echo self
                      then drop (length request) (incoming w) else incoming w);
                   answer = serial_read number_of_bytes_to_read remaining;
                   latest = latest_read_times(port self \<mapsto> ticks_after_read w)
               in (if length answer = 0 then Inl (IOError NoAnswer) else Inr answer,
                   latest,
                   [Write request] @ echoing @ [Read number_of_bytes_to_read]))"

text \<open>
  \<^verbatim>\<open>Instrument._performCommand(functioncode, payloadToSlave)\<close>. The number of bytes
  to read is \<^verbatim>\<open>DEFAULT_NUMBER_OF_BYTES_TO_READ = 1000\<close> unless the prediction is
  switched on and returns; the \<^verbatim>\<open>except\<close> clause around the prediction catches
  everything and only prints in debug mode.
\<close>

definition number_of_bytes_to_read :: "instrument \<Rightarrow> int \<Rightarrow> byte list \<Rightarrow> int" where
  "number_of_bytes_to_read self functioncode payloadToSlave =
     (if precalculate_read_size self
      then (case predictResponseSize (mode self) functioncode payloadToSlave of
              Inl e \<Rightarrow> 1000
            | Inr n \<Rightarrow> n)
      else 1000)"

definition performCommand ::
    "instrument \<Rightarrow> world \<Rightarrow> read_times \<Rightarrow> int \<Rightarrow> byte list
       \<Rightarrow> (exn + byte list) \<times> read_times \<times> event list" where
  "performCommand self w latest_read_times functioncode payloadToSlave =
     (case andthen (checkFunctioncode functioncode None)
             (andthen (checkString (Bytearray payloadToSlave) ''payload'' 0 None)
                (embedPayload (address self) (mode self) functioncode payloadToSlave)) of
        Inl e \<Rightarrow> (Inl e, latest_read_times, [])
      | Inr request \<Rightarrow>
          (case communicate self w latest_read_times request
                  (number_of_bytes_to_read self functioncode payloadToSlave) of
             (Inl e, latest, events) \<Rightarrow> (Inl e, latest, events)
           | (Inr response, latest, events) \<Rightarrow>
               (extractPayload response (address self) (mode self) functioncode,
                latest, events)))"

section \<open>The table computes the Modbus CRC16\<close>

lemma upto_bytes: "[0..255] = 0 # 1 # [2..255]"
proof -
  have "[0..255] = 0 # [1..255]"
    by (subst upto_rec1) simp_all
  also have "[1..255] = 1 # [2..255]"
    by (subst upto_rec1) simp_all
  finally show ?thesis .
qed

lemma table_reference:
  "CRC16TABLE = map reference_crc16_byte [0..255]"
  unfolding upto_bytes
  by (simp add: upto_rec_numeral reference_crc16_byte_def reference_crc16_bit_def CRC16TABLE_def)

lemma table_nth:
  assumes "i < 256"
  shows "CRC16TABLE ! i = reference_crc16_byte (int i)"
proof -
  have "CRC16TABLE ! i = map reference_crc16_byte [0..255] ! i"
    by (simp only: table_reference [symmetric])
  also have "\<dots> = reference_crc16_byte ([0..255] ! i)"
    using assms by (intro nth_map) simp
  also have "[0..255] ! i = 0 + int i"
    using assms by (intro nth_upto) simp
  finally show ?thesis by simp
qed

lemma bit_linear:
  "reference_crc16_bit (x XOR y) = reference_crc16_bit x XOR reference_crc16_bit y"
  by (simp add: reference_crc16_bit_def even_xor_iff ac_simps)

lemma byte_linear:
  "reference_crc16_byte (x XOR y) = reference_crc16_byte x XOR reference_crc16_byte y"
  by (simp only: reference_crc16_byte_def bit_linear)

lemma bit_push: "reference_crc16_bit (push_bit (Suc n) h) = push_bit n h"
proof -
  have "push_bit (Suc n) h = 2 * push_bit n h"
    by (simp add: push_bit_eq_mult)
  then show ?thesis
    by (simp add: reference_crc16_bit_def drop_bit_eq_div del: push_bit_Suc)
qed

lemma byte_push: "reference_crc16_byte (push_bit 8 h) = h"
proof -
  have "push_bit 8 h = push_bit (Suc (Suc (Suc (Suc (Suc (Suc (Suc (Suc 0)))))))) h"
    by (simp add: eval_nat_numeral)
  then show ?thesis
    by (simp only: reference_crc16_byte_def bit_push) simp
qed

lemma split_low: "(x::int) = push_bit 8 (drop_bit 8 x) XOR take_bit 8 x"
  by (rule bit_eqI) (auto simp add: bit_simps)

lemma crc_step_reference:
  "drop_bit 8 register XOR CRC16TABLE ! nat ((register XOR uint (c::byte)) AND 0xFF)
     = reference_crc16_byte (register XOR uint c)"
proof -
  define x where "x = register XOR uint c"
  have low: "x AND 0xFF = take_bit 8 x"
    by (simp add: take_bit_eq_mask mask_eq_exp_minus_1)
  have rng: "0 \<le> take_bit 8 x" "take_bit 8 x < 256"
    using take_bit_int_less_exp [of 8 x] by simp_all
  have "uint c < 256"
    using uint_bounded [of c] by simp
  then have "drop_bit 8 (uint c) = 0"
    by (simp add: drop_bit_eq_div)
  then have hi: "drop_bit 8 x = drop_bit 8 register"
    by (simp add: x_def)
  have "reference_crc16_byte x
          = reference_crc16_byte (push_bit 8 (drop_bit 8 x)) XOR reference_crc16_byte (take_bit 8 x)"
    using split_low [of x] byte_linear by metis
  also have "\<dots> = drop_bit 8 register XOR CRC16TABLE ! nat (take_bit 8 x)"
    using rng by (simp add: byte_push hi table_nth)
  finally show ?thesis
    by (simp only: x_def [symmetric] low)
qed

lemma crc_loop_reference: "crc_loop register inputstring = reference_crc16 register inputstring"
  by (induction inputstring arbitrary: register)
     (simp_all only: crc_loop.simps reference_crc16.simps crc_step_reference)

lemma table_bound:
  assumes "i < 256"
  shows "0 \<le> CRC16TABLE ! i \<and> CRC16TABLE ! i < 65536"
proof -
  have "list_all (\<lambda>x. 0 \<le> x \<and> x < 65536) CRC16TABLE"
    by (simp add: CRC16TABLE_def)
  moreover have "length CRC16TABLE = 256"
    by (simp add: CRC16TABLE_def)
  ultimately show ?thesis
    using assms by (simp add: list_all_length)
qed

lemma crc_step_bound:
  assumes "0 \<le> register" "register < 65536"
  shows "0 \<le> drop_bit 8 register XOR CRC16TABLE ! nat ((register XOR uint (c::byte)) AND 0xFF)
       \<and> drop_bit 8 register XOR CRC16TABLE ! nat ((register XOR uint c) AND 0xFF) < 65536"
proof -
  define i where "i = nat ((register XOR uint c) AND 0xFF)"
  have "(register XOR uint c) AND 0xFF = take_bit 8 (register XOR uint c)"
    by (simp add: take_bit_eq_mask mask_eq_exp_minus_1)
  then have "i < 256"
    using take_bit_int_less_exp [of 8 "register XOR uint c"] by (simp add: i_def)
  then have t: "0 \<le> CRC16TABLE ! i" "CRC16TABLE ! i < 2 ^ 16"
    using table_bound [of i] by simp_all
  have d: "0 \<le> drop_bit 8 register" "drop_bit 8 register < 2 ^ 16"
    using assms by (simp_all add: drop_bit_eq_div)
  have "0 \<le> drop_bit 8 register XOR CRC16TABLE ! i"
    using t d by simp
  moreover have "drop_bit 8 register XOR CRC16TABLE ! i < 2 ^ 16"
    using d t by (intro XOR_upper)
  ultimately show ?thesis
    by (simp add: i_def)
qed

lemma crc_loop_bound:
  "0 \<le> register \<Longrightarrow> register < 65536 \<Longrightarrow>
     0 \<le> crc_loop register inputstring \<and> crc_loop register inputstring < 65536"
proof (induction inputstring arbitrary: register)
  case Nil
  then show ?case by simp
next
  case (Cons c cs)
  from crc_step_bound [OF Cons.prems, of c] show ?case
    by (simp only: crc_loop.simps) (rule Cons.IH, simp_all)
qed

lemma numToTwoByteArray_lsb:
  assumes "0 \<le> v" "v < 65536"
  shows "numToTwoByteArray v 0 True False = Inr [word_of_int (v mod 256), word_of_int (v div 256)]"
  using assms
  by (simp add: numToTwoByteArray_def float_of_int_def checkInt_def checkNumerical_def pack_def
        struct_pack_def)

lemma calculateCrcString_eq:
  "calculateCrcString inputstring =
     Inr [word_of_int (crc_loop 0xFFFF inputstring mod 256),
          word_of_int (crc_loop 0xFFFF inputstring div 256)]"
  using crc_loop_bound [of 65535 inputstring]
  by (simp add: calculateCrcString_def numToTwoByteArray_lsb)

lemma crc_example: "calculateCrcString [0x01, 0x03, 0x00, 0x00, 0x00, 0x01] = Inr [0x84, 0x0A]"
  by (simp add: calculateCrcString_eq CRC16TABLE_def)

section \<open>Frames\<close>

lemma valid_checks:
  assumes "0 \<le> a" "a \<le> 247" "1 \<le> fc" "fc \<le> 127"
  shows "checkSlaveaddress a = Inr ()" "checkMode ''rtu'' = Inr ()"
    "checkFunctioncode fc None = Inr ()"
  using assms
  by (simp_all add: checkSlaveaddress_def checkMode_def MODE_RTU_def checkFunctioncode_def
        checkInt_def checkNumerical_def)

lemma checkString_any: "checkString (Bytearray bs) d 0 None = Inr ()"
  by (simp add: checkString_def checkInt_def checkNumerical_def)

lemma numToOneByteArray_eq:
  "0 \<le> v \<Longrightarrow> v \<le> 255 \<Longrightarrow> numToOneByteArray v = Inr [word_of_int v]"
  by (simp add: numToOneByteArray_def checkInt_def checkNumerical_def)

lemma embedPayload_eq:
  assumes "0 \<le> a" "a \<le> 247" "1 \<le> fc" "fc \<le> 127"
  shows "embedPayload a ''rtu'' fc p =
     bind_exn (calculateCrcString (word_of_int a # word_of_int fc # p))
       (\<lambda>crc. Inr (word_of_int a # word_of_int fc # p @ crc))"
  using assms
  by (simp add: embedPayload_def valid_checks checkString_any numToOneByteArray_eq)

lemma setBitOn_7: "0 \<le> fc \<Longrightarrow> setBitOn fc 7 = Inr (fc OR 128)"
  by (simp add: setBitOn_def checkInt_def checkNumerical_def)

lemma errorcode_differs:
  assumes "0 \<le> fc" "fc \<le> 127"
  shows "fc OR 128 \<noteq> (fc::int)"
proof
  assume "fc OR 128 = fc"
  then have "bit fc 7 = bit (fc OR 128) 7"
    by simp
  also have "128 = push_bit 7 (1::int)" by simp
  also have "bit (fc OR push_bit 7 1) 7"
    unfolding bit_or_iff by (simp add: bit_push_bit_iff)
  finally have "bit fc 7" by simp
  then have "odd (fc div 128)"
    by (simp add: bit_iff_odd)
  moreover have "fc div 128 = 0"
    using assms by simp
  ultimately show False by simp
qed

lemma extractPayload_eq:
  assumes "0 \<le> a" "a \<le> 247" "1 \<le> fc" "fc \<le> 127"
  shows "extractPayload response a ''rtu'' fc =
     (if length response < 4 then Inl (ValueError TooShortResponse)
      else if calculateCrcString (take (length response - 2) response)
                \<noteq> Inr (drop (length response - 2) response)
      then Inl (ValueError ChecksumError)
      else if uint (response ! 0) \<noteq> a then Inl (ValueError WrongSlaveAddress)
      else if uint (response ! 1) = fc OR 128 then Inl (ValueError SlaveIndicatesError)
      else if uint (response ! 1) \<noteq> fc then Inl (ValueError WrongFunctioncode)
      else Inr (drop 2 (take (length response - 2) response)))"
  using assms
  by (auto simp add: extractPayload_def valid_checks setBitOn_7 calculateCrcString_eq Let_def)

lemma roundtrip:
  assumes "0 \<le> a" "a \<le> 247" "1 \<le> fc" "fc \<le> 127"
  shows "\<exists>frame. embedPayload a ''rtu'' fc p = Inr frame
           \<and> extractPayload frame a ''rtu'' fc = Inr p"
proof -
  obtain lo hi where crc: "calculateCrcString (word_of_int a # word_of_int fc # p) = Inr [lo, hi]"
    using calculateCrcString_eq by blast
  define frame where "frame = word_of_int a # word_of_int fc # p @ [lo, hi]"
  have e: "embedPayload a ''rtu'' fc p = Inr frame"
    using assms by (simp add: embedPayload_eq crc frame_def)
  have ua: "uint (word_of_int a :: byte) = a"
    using assms by (simp add: uint_word_of_int take_bit_int_eq_self)
  have uf: "uint (word_of_int fc :: byte) = fc"
    using assms by (simp add: uint_word_of_int take_bit_int_eq_self)
  have tk: "take (length frame - 2) frame = word_of_int a # word_of_int fc # p"
    by (simp add: frame_def)
  have dr: "drop (length frame - 2) frame = [lo, hi]"
    by (simp add: frame_def)
  have "extractPayload frame a ''rtu'' fc = Inr p"
    using assms errorcode_differs [of fc]
    by (simp add: extractPayload_eq tk dr crc) (simp add: frame_def ua uf)
  with e show ?thesis by blast
qed

lemma crc_loop_append:
  "crc_loop register (inputstring @ [char]) =
     drop_bit 8 (crc_loop register inputstring)
       XOR CRC16TABLE ! nat ((crc_loop register inputstring XOR uint char) AND 0xFF)"
  by (induction inputstring arbitrary: register) simp_all

text \<open>
  Claim C2. The CRC16 engine starts from a register of \<^verbatim>\<open>0xFFFF\<close>, updates it for every
  byte as \<^verbatim>\<open>(register >> 8) XOR table[(register XOR byte) & 0xFF]\<close> over the table of 256
  entries, and writes the register low byte first. What it computes is the Modbus CRC16
  (the reflected polynomial \<^verbatim>\<open>0xA001\<close>, bit by bit) of any sequence of bytes. The CRC of
  \<^verbatim>\<open>01 03 00 00 00 01\<close> is \<^verbatim>\<open>84 0A\<close>, and the request for slave address 1, function
  code 3, register address 0 and count 1 is \<^verbatim>\<open>01 03 00 00 00 01 84 0A\<close>.
\<close>

theorem crc16_engine:
  "length CRC16TABLE = 256
   \<and> crc_loop 0xFFFF [] = 0xFFFF
   \<and> crc_loop 0xFFFF (inputstring @ [char]) =
       drop_bit 8 (crc_loop 0xFFFF inputstring)
         XOR CRC16TABLE ! nat ((crc_loop 0xFFFF inputstring XOR uint char) AND 0xFF)
   \<and> crc_loop 0xFFFF inputstring = reference_crc16 0xFFFF inputstring
   \<and> calculateCrcString inputstring =
       Inr [word_of_int (crc_loop 0xFFFF inputstring mod 256),
            word_of_int (crc_loop 0xFFFF inputstring div 256)]
   \<and> calculateCrcString [0x01, 0x03, 0x00, 0x00, 0x00, 0x01] = Inr [0x84, 0x0A]
   \<and> numToTwoByteArray 0x0000 0 False False = Inr [0x00, 0x00]
   \<and> numToTwoByteArray 1 0 False False = Inr [0x00, 0x01]
   \<and> embedPayload 1 ''rtu'' 3 ([0x00, 0x00] @ [0x00, 0x01]) =
       Inr [0x01, 0x03, 0x00, 0x00, 0x00, 0x01, 0x84, 0x0A]"
proof -
  have "length CRC16TABLE = 256"
    by (simp add: CRC16TABLE_def)
  moreover have "numToTwoByteArray 0x0000 0 False False = Inr [0x00, 0x00]"
    "numToTwoByteArray 1 0 False False = Inr [0x00, 0x01]"
    by (simp_all add: numToTwoByteArray_def float_of_int_def checkInt_def checkNumerical_def
          pack_def struct_pack_def)
  moreover have "embedPayload 1 ''rtu'' 3 ([0x00, 0x00] @ [0x00, 0x01]) =
       Inr [0x01, 0x03, 0x00, 0x00, 0x00, 0x01, 0x84, 0x0A]"
    using crc_example by (simp add: embedPayload_eq)
  ultimately show ?thesis
    using crc_loop_append crc_loop_reference calculateCrcString_eq crc_example
    by simp
qed

text \<open>
  Claim C1. For a slave address from 0 to 247, a function code from 1 to 127 and any
  payload, the frame is built, and extracting the payload from it with the same address
  and function code returns the payload unchanged.
\<close>

theorem extract_embed_roundtrip:
  assumes "0 \<le> slaveaddress" "slaveaddress \<le> 247" "1 \<le> functioncode" "functioncode \<le> 127"
  shows "\<exists>request. embedPayload slaveaddress ''rtu'' functioncode payload = Inr request
           \<and> extractPayload request slaveaddress ''rtu'' functioncode = Inr payload"
  using assms by (rule roundtrip)

theorem extract_embed_roundtrip_witness:
  "(0::int) \<le> 17 \<and> (17::int) \<le> 247 \<and> (1::int) \<le> 3 \<and> (3::int) \<le> 127
   \<and> (\<exists>request. embedPayload 17 ''rtu'' 3 [0x00, 0x6B, 0x00, 0x03] = Inr request
           \<and> extractPayload request 17 ''rtu'' 3 = Inr [0x00, 0x6B, 0x00, 0x03])"
  using extract_embed_roundtrip [of 17 3 "[0x00, 0x6B, 0x00, 0x03]"] by simp

text \<open>
  Claim C3. The validator checks a response in a fixed order, each check with its own
  failure: fewer than 4 bytes; then the CRC16 over all bytes but the last two against those
  two; then the first byte against the slave address; then the second byte, which fails as
  an error that the slave reports when it is the function code with bit 7 set, and as a
  wrong function code when it is anything else but the function code. On success the
  payload is what lies between the two start bytes and the two CRC bytes.
\<close>

theorem frame_validator_sequence:
  assumes "0 \<le> slaveaddress" "slaveaddress \<le> 247" "1 \<le> functioncode" "functioncode \<le> 127"
  shows "extractPayload response slaveaddress ''rtu'' functioncode =
     (if length response < 4 then Inl (ValueError TooShortResponse)
      else if calculateCrcString (take (length response - 2) response)
                \<noteq> Inr (drop (length response - 2) response)
      then Inl (ValueError ChecksumError)
      else if uint (response ! 0) \<noteq> slaveaddress then Inl (ValueError WrongSlaveAddress)
      else if uint (response ! 1) = functioncode OR 128 then Inl (ValueError SlaveIndicatesError)
      else if uint (response ! 1) \<noteq> functioncode then Inl (ValueError WrongFunctioncode)
      else Inr (drop 2 (take (length response - 2) response)))"
  using assms by (rule extractPayload_eq)

theorem frame_validator_sequence_witness:
  "(0::int) \<le> 1 \<and> (1::int) \<le> 247 \<and> (1::int) \<le> 3 \<and> (3::int) \<le> 127
   \<and> extractPayload [0x01, 0x03, 0x02] 1 ''rtu'' 3 = Inl (ValueError TooShortResponse)
   \<and> extractPayload [0x01, 0x03, 0x02, 0x00, 0x2A, 0x39, 0x9C] 1 ''rtu'' 3
         = Inl (ValueError ChecksumError)
   \<and> extractPayload [0x02, 0x03, 0x02, 0x00, 0x2A, 0x7D, 0x9B] 1 ''rtu'' 3
         = Inl (ValueError WrongSlaveAddress)
   \<and> extractPayload [0x01, 0x83, 0x02, 0xC0, 0xF1] 1 ''rtu'' 3
         = Inl (ValueError SlaveIndicatesError)
   \<and> extractPayload [0x01, 0x04, 0x02, 0x00, 0x2A, 0x38, 0xEF] 1 ''rtu'' 3
         = Inl (ValueError WrongFunctioncode)
   \<and> extractPayload [0x01, 0x03, 0x02, 0x00, 0x2A, 0x39, 0x9B] 1 ''rtu'' 3
         = Inr [0x02, 0x00, 0x2A]"
  using frame_validator_sequence [of 1 3 "[0x01, 0x03, 0x02]"]
    frame_validator_sequence [of 1 3 "[0x01, 0x03, 0x02, 0x00, 0x2A, 0x39, 0x9C]"]
    frame_validator_sequence [of 1 3 "[0x02, 0x03, 0x02, 0x00, 0x2A, 0x7D, 0x9B]"]
    frame_validator_sequence [of 1 3 "[0x01, 0x83, 0x02, 0xC0, 0xF1]"]
    frame_validator_sequence [of 1 3 "[0x01, 0x04, 0x02, 0x00, 0x2A, 0x38, 0xEF]"]
    frame_validator_sequence [of 1 3 "[0x01, 0x03, 0x02, 0x00, 0x2A, 0x39, 0x9B]"]
  by (simp add: calculateCrcString_eq CRC16TABLE_def)

section \<open>Registers without decimals\<close>

text \<open>
  With \<^verbatim>\<open>numberOfDecimals == 0\<close> and an integer value below \<open>2 ^ 53\<close> nothing is
  rounded: a value in the range of the format is packed and read back unchanged, and a
  value outside it is rejected.
\<close>

lemma float_of_int_exact: "\<bar>n\<bar> < 2 ^ 53 \<Longrightarrow> float_of_int n = Some n"
  by (simp add: float_of_int_def)

lemma uint_byte: "0 \<le> k \<Longrightarrow> k < 256 \<Longrightarrow> uint (word_of_int k :: byte) = k"
  by (simp add: uint_word_of_int take_bit_int_eq_self)

lemma sint_byte: "- 128 \<le> k \<Longrightarrow> k < 128 \<Longrightarrow> sint (word_of_int k :: byte) = k"
proof -
  assume "- 128 \<le> k" "k < 128"
  then have "signed_take_bit 7 k = k"
    by (intro signed_take_bit_int_eq_self) simp_all
  then show ?thesis
    by (simp add: sint_sbintrunc')
qed

lemma register_roundtrip_unsigned:
  assumes "0 \<le> v" "v \<le> 65535"
  shows "bind_exn (numToTwoByteArray v 0 False False) (\<lambda>bs. twoByteStringToNum bs False) = Inr v"
proof -
  have d: "0 \<le> v div 256" "v div 256 < 256" and m: "0 \<le> v mod 256" "v mod 256 < 256"
    using assms by simp_all
  have "uint (word_of_int (v div 256) :: byte) * 256 + uint (word_of_int (v mod 256) :: byte) = v"
    using uint_byte [OF d] uint_byte [OF m] by simp
  then show ?thesis
    using assms
    by (simp add: numToTwoByteArray_def float_of_int_def twoByteStringToNum_def checkInt_def
          checkNumerical_def checkString_def pack_def unpack_def struct_pack_def
          struct_unpack_def)
qed

lemma register_roundtrip_signed:
  assumes "- 32768 \<le> v" "v \<le> 32767"
  shows "bind_exn (numToTwoByteArray v 0 False True) (\<lambda>bs. twoByteStringToNum bs True) = Inr v"
proof -
  have d: "- 128 \<le> v div 256" "v div 256 < 128" and m: "0 \<le> v mod 256" "v mod 256 < 256"
    using assms by simp_all
  have "sint (word_of_int (v div 256) :: byte) * 256 + uint (word_of_int (v mod 256) :: byte) = v"
    using sint_byte [OF d] uint_byte [OF m] by simp
  moreover have "\<bar>v\<bar> < 2 ^ 53"
    using assms by simp
  ultimately show ?thesis
    using assms
    by (simp add: numToTwoByteArray_def float_of_int_def twoByteStringToNum_def checkInt_def
          checkNumerical_def checkString_def pack_def unpack_def struct_pack_def
          struct_unpack_def)
qed

lemma register_out_of_range:
  "v < 0 \<or> 65535 < v \<Longrightarrow> \<bar>v\<bar> < 2 ^ 53
     \<Longrightarrow> numToTwoByteArray v 0 False False = Inl (ValueError PackFailed)"
  "v < - 32768 \<or> 32767 < v \<Longrightarrow> \<bar>v\<bar> < 2 ^ 53
     \<Longrightarrow> numToTwoByteArray v 0 False True = Inl (ValueError PackFailed)"
  by (auto simp add: numToTwoByteArray_def float_of_int_def checkInt_def checkNumerical_def
        pack_def struct_pack_def)

section \<open>The predicted size of the response\<close>

lemma take2_drop2:
  assumes "4 \<le> length p"
  shows "take 2 (drop 2 p) = [p ! 2, p ! 3]"
proof -
  have "take 2 (drop 2 p) = [drop 2 p ! 0, drop 2 p ! 1]"
    using assms by (intro nth_equalityI) (auto simp add: less_Suc_eq numeral_2_eq_2)
  then show ?thesis
    using assms by (simp add: numeral_3_eq_3)
qed

lemma twoByteStringToNum_unsigned:
  "twoByteStringToNum [b0, b1] False = Inr (uint b0 * 256 + uint b1)"
  by (simp add: twoByteStringToNum_def checkString_def checkInt_def checkNumerical_def
        unpack_def struct_unpack_def)

lemma ceil_eighth:
  "q div 8 + (if q mod 8 = 0 then 0 else 1) = \<lceil>(of_int q :: rat) / 8\<rceil>"
proof -
  have "\<lceil>(of_int q :: rat) / of_int 8\<rceil> = - (- q div 8)"
    by (rule ceiling_divide_eq_div)
  moreover have "- (- q div 8) = q div 8 + (if q mod 8 = 0 then 0 else 1)"
    by (simp split: if_splits) presburger
  ultimately show ?thesis by simp
qed

lemma checkFunctioncode_None:
  "checkFunctioncode fc None =
     (if fc < 1 then Inl (ValueError (TooSmall ''functioncode''))
      else if 127 < fc then Inl (ValueError (TooLarge ''functioncode''))
      else Inr ())"
  by (simp add: checkFunctioncode_def checkInt_def checkNumerical_def)

lemma checkString_min:
  "0 \<le> n \<Longrightarrow> checkString (Bytearray bs) d n None =
     (if int (length bs) < n then Inl (ValueError (TooShort d)) else Inr ())"
  by (simp add: checkString_def checkInt_def checkNumerical_def)

lemma predictResponseSize_eq:
  "predictResponseSize ''rtu'' fc p =
     (if fc < 1 then Inl (ValueError (TooSmall ''functioncode''))
      else if 127 < fc then Inl (ValueError (TooLarge ''functioncode''))
      else if length p < 4 then Inl (ValueError (TooShort ''payload''))
      else if fc \<in> set [5, 6, 15, 16] then Inr (2 + 4 + 2)
      else if fc \<in> set [1, 2]
      then Inr (2 + (1 + \<lceil>(of_int (uint (p ! 2) * 256 + uint (p ! 3)) :: rat) / 8\<rceil>) + 2)
      else if fc \<in> set [3, 4]
      then Inr (2 + (1 + 2 * (uint (p ! 2) * 256 + uint (p ! 3))) + 2)
      else Inl (ValueError WrongFunctioncodeForPayload))"
proof (cases "4 \<le> length p")
  case True
  define q where "q = uint (p ! 2) * 256 + uint (p ! 3)"
  have given: "twoByteStringToNum (take (4 - 2) (drop 2 p)) False = Inr q"
    using True by (simp add: take2_drop2 twoByteStringToNum_unsigned q_def)
  show ?thesis
    unfolding q_def [symmetric] predictResponseSize_def given
    using True
    by (simp add: checkMode_def MODE_RTU_def checkFunctioncode_None
          checkString_min ceil_eighth [symmetric])
next
  case False
  then show ?thesis
    by (simp add: predictResponseSize_def checkMode_def MODE_RTU_def checkFunctioncode_None
          checkString_min)
qed

text \<open>
  Claim C4. For an outgoing payload of at least 4 bytes (a shorter one is the matter of
  claim C10) the predicted size of the response is 8 bytes (2 start bytes, 4 payload bytes,
  2 CRC bytes) for the function codes 5, 6, 15 and 16; \<open>2 + 1 + \<lceil>q / 8\<rceil> + 2\<close> bytes for
  the function codes 1 and 2, where \<open>q\<close> is the big-endian number in the bytes 2 and 3 of
  the outgoing payload; \<open>2 + 1 + 2 * R + 2\<close> bytes for the function codes 3 and 4 asking for
  \<open>R\<close> registers (the same two bytes). Every other function code is rejected with a
  \<^verbatim>\<open>ValueError\<close>. The equation also shows what comes first: the range of the function
  code, then the length of the payload.
\<close>

theorem response_size_prediction:
  "predictResponseSize ''rtu'' functioncode payloadToSlave =
     (if functioncode < 1 then Inl (ValueError (TooSmall ''functioncode''))
      else if 127 < functioncode then Inl (ValueError (TooLarge ''functioncode''))
      else if length payloadToSlave < 4 then Inl (ValueError (TooShort ''payload''))
      else if functioncode \<in> set [5, 6, 15, 16] then Inr (2 + 4 + 2)
      else if functioncode \<in> set [1, 2]
      then Inr (2 + (1 + \<lceil>(of_int (uint (payloadToSlave ! 2) * 256
                                    + uint (payloadToSlave ! 3)) :: rat) / 8\<rceil>) + 2)
      else if functioncode \<in> set [3, 4]
      then Inr (2 + (1 + 2 * (uint (payloadToSlave ! 2) * 256 + uint (payloadToSlave ! 3))) + 2)
      else Inl (ValueError WrongFunctioncodeForPayload))"
  by (rule predictResponseSize_eq)

section \<open>Transactions\<close>

lemma checkMode_eq: "checkMode m = (if m = ''rtu'' then Inr () else Inl (ValueError UnrecognizedMode))"
  by (simp add: checkMode_def MODE_RTU_def)

lemma checkSlaveaddress_eq:
  "checkSlaveaddress a =
     (if a < 0 then Inl (ValueError (TooSmall ''slaveaddress''))
      else if 247 < a then Inl (ValueError (TooLarge ''slaveaddress''))
      else Inr ())"
  by (simp add: checkSlaveaddress_def checkInt_def checkNumerical_def)

lemma embedPayload_Inr:
  assumes "embedPayload a m fc p = Inr request"
  shows "0 \<le> a \<and> a \<le> 247 \<and> m = ''rtu'' \<and> 1 \<le> fc \<and> fc \<le> 127
         \<and> length request = length p + 4"
proof -
  have v: "0 \<le> a \<and> a \<le> 247 \<and> m = ''rtu'' \<and> 1 \<le> fc \<and> fc \<le> 127"
    using assms
    by (simp add: embedPayload_def checkSlaveaddress_eq checkMode_eq checkFunctioncode_None
          split: if_splits)
  then have "embedPayload a m fc p =
     bind_exn (calculateCrcString (word_of_int a # word_of_int fc # p))
       (\<lambda>crc. Inr (word_of_int a # word_of_int fc # p @ crc))"
    by (simp add: embedPayload_eq)
  with assms have "length request = length p + 4"
    by (auto simp add: calculateCrcString_eq)
  with v show ?thesis by simp
qed

lemma silent_period_eq:
  "calculate_minimum_silent_period b =
     (if b < 1 then Inl (ValueError (TooSmall ''baudrate''))
      else if float_of_int b = None then Inl OverflowError
      else Inr ())"
  by (simp add: calculate_minimum_silent_period_def checkNumerical_def split: option.splits)

lemma communicate_eq:
  assumes "request \<noteq> []" "1 \<le> baudrate self" "float_of_int (baudrate self) \<noteq> None"
  shows "communicate self w t request n =
     (let echoing = (if handle_local_echo self then [Read (int (length request))] else [])
      in if handle_local_echo self \<and> serial_read (int (length request)) (incoming w) \<noteq> request
         then (Inl (IOError LocalEchoMismatch), t, [Write request] @ echoing)
         else (if serial_read n (if handle_local_echo self
                                 then drop (length request) (incoming w) else incoming w) = []
               then Inl (IOError NoAnswer)
               else Inr (serial_read n (if handle_local_echo self
                                 then drop (length request) (incoming w) else incoming w)),
               t(port self \<mapsto> ticks_after_read w),
               [Write request] @ echoing @ [Read n]))"
proof -
  have "0 < length request"
    using assms by simp
  then have "checkString (Bytearray request) ''request'' 1 None = Inr ()"
    by (simp add: checkString_min)
  moreover have "checkInt n None None ''inputvalue'' = Inr ()"
    by (simp add: checkInt_def checkNumerical_def)
  ultimately show ?thesis
    using assms by (simp add: communicate_def silent_period_eq Let_def)
qed

lemma communicate_no_period:
  assumes "calculate_minimum_silent_period (baudrate self) = Inl e"
  shows "\<exists>e'. communicate self w t request n = (Inl e', t, [])"
proof -
  have "\<exists>e'. andthen c (andthen d (calculate_minimum_silent_period (baudrate self))) = Inl e'"
    for c d
    using assms by (cases c; cases d) simp_all
  then obtain e' where
    "andthen (checkString (Bytearray request) ''request'' 1 None)
       (andthen (checkInt n None None ''inputvalue'')
          (calculate_minimum_silent_period (baudrate self))) = Inl e'"
    by blast
  then show ?thesis
    by (simp add: communicate_def)
qed

lemma performCommand_eq:
  assumes "embedPayload (address self) (mode self) fc p = Inr request"
  shows "performCommand self w t fc p =
     (case communicate self w t request (number_of_bytes_to_read self fc p) of
        (Inl e, latest, events) \<Rightarrow> (Inl e, latest, events)
      | (Inr response, latest, events) \<Rightarrow>
          (extractPayload response (address self) (mode self) fc, latest, events))"
  using assms embedPayload_Inr [OF assms]
  by (simp add: performCommand_def checkFunctioncode_None checkString_any)

lemmas model_defs =
  checkNumerical_def checkInt_def checkString_def checkMode_def MODE_RTU_def
  checkFunctioncode_def checkSlaveaddress_def checkRegisteraddress_def numToOneByteArray_def
  struct_pack_def struct_unpack_def pack_def unpack_def numToTwoByteArray_def
  twoByteStringToNum_def setBitOn_def calculateCrcString_def embedPayload_def
  extractPayload_def predictResponseSize_def calculate_minimum_silent_period_def
  createBitpattern_def checkResponseByteCount_def checkResponseRegisterAddress_def
  checkResponseNumberOfRegisters_def checkResponseWriteData_def checkResponseContents_def
  serial_read_def communicate_def number_of_bytes_to_read_def performCommand_def
  float_of_int_def CRC16TABLE_def Let_def

text \<open>
  Claim C10. The prediction raises for every outgoing payload shorter than 4 bytes, whatever
  the function code (and the mode). Whenever the prediction raises, the number of bytes to
  read is the default 1000, and the transaction goes on with it: \<^verbatim>\<open>_performCommand\<close> is
  \<^verbatim>\<open>_communicate\<close> with 1000 followed by the extraction, and the last thing done to the
  port is a read of 1000 bytes (when the baud rate is one that \<^verbatim>\<open>_communicate\<close> accepts:
  at least 1 and within the range of a float).
\<close>

theorem short_payload_and_default_read_size:
  "(length payloadToSlave < 4 \<longrightarrow> (\<exists>e. predictResponseSize m functioncode payloadToSlave = Inl e))
   \<and> (predictResponseSize (mode self) functioncode payloadToSlave = Inl e
        \<longrightarrow> number_of_bytes_to_read self functioncode payloadToSlave = 1000)
   \<and> (predictResponseSize (mode self) functioncode payloadToSlave = Inl e
        \<and> embedPayload (address self) (mode self) functioncode payloadToSlave = Inr request
        \<longrightarrow> performCommand self w t functioncode payloadToSlave =
            (case communicate self w t request 1000 of
               (Inl e, latest, events) \<Rightarrow> (Inl e, latest, events)
             | (Inr response, latest, events) \<Rightarrow>
                 (extractPayload response (address self) (mode self) functioncode,
                  latest, events)))
   \<and> (predictResponseSize (mode self) functioncode payloadToSlave = Inl e
        \<and> embedPayload (address self) (mode self) functioncode payloadToSlave = Inr request
        \<and> 1 \<le> baudrate self \<and> float_of_int (baudrate self) \<noteq> None
        \<and> handle_local_echo self = False
        \<longrightarrow> last (snd (snd (performCommand self w t functioncode payloadToSlave))) = Read 1000)"
proof -
  have a: "\<exists>e. predictResponseSize m functioncode payloadToSlave = Inl e"
    if "length payloadToSlave < 4"
  proof -
    have h: "andthen c (andthen d (andthen (checkString (Bytearray payloadToSlave) ''payload'' 4 None) k))
            \<noteq> Inr n" for c d k n
      using that by (cases c; cases d) (simp_all add: checkString_min)
    have "predictResponseSize m functioncode payloadToSlave \<noteq> Inr n" for n
      unfolding predictResponseSize_def by (rule h)
    then show ?thesis
      by (cases "predictResponseSize m functioncode payloadToSlave") auto
  qed
  have b: "number_of_bytes_to_read self functioncode payloadToSlave = 1000"
    if "predictResponseSize (mode self) functioncode payloadToSlave = Inl e"
    using that by (simp add: number_of_bytes_to_read_def)
  have c: "performCommand self w t functioncode payloadToSlave =
            (case communicate self w t request 1000 of
               (Inl e, latest, events) \<Rightarrow> (Inl e, latest, events)
             | (Inr response, latest, events) \<Rightarrow>
                 (extractPayload response (address self) (mode self) functioncode,
                  latest, events))"
    if "predictResponseSize (mode self) functioncode payloadToSlave = Inl e"
      "embedPayload (address self) (mode self) functioncode payloadToSlave = Inr request"
    using that by (simp add: performCommand_eq b)
  have d: "last (snd (snd (performCommand self w t functioncode payloadToSlave))) = Read 1000"
    if "predictResponseSize (mode self) functioncode payloadToSlave = Inl e"
      "embedPayload (address self) (mode self) functioncode payloadToSlave = Inr request"
      "1 \<le> baudrate self" "float_of_int (baudrate self) \<noteq> None"
      "handle_local_echo self = False"
  proof -
    have "request \<noteq> []"
      using embedPayload_Inr [OF that(2)] by auto
    then show ?thesis
      using that by (simp add: c communicate_eq Let_def)
  qed
  from a b c d show ?thesis by blast
qed

theorem short_payload_and_default_read_size_witness:
  "length [0x00, 0x10, 0xFF :: byte] < 4
   \<and> predictResponseSize ''rtu'' 5 [0x00, 0x10, 0xFF] = Inl (ValueError (TooShort ''payload''))
   \<and> number_of_bytes_to_read
         \<lparr>port = 1, address = 1, mode = ''rtu'', baudrate = 9600,
          precalculate_read_size = True, handle_local_echo = False\<rparr> 5 [0x00, 0x10, 0xFF]
       = 1000
   \<and> embedPayload 1 ''rtu'' 5 [0x00, 0x10, 0xFF] = Inr [0x01, 0x05, 0x00, 0x10, 0xFF, 0x54, 0x8C]
   \<and> (1::int) \<le> 9600 \<and> float_of_int 9600 \<noteq> None
   \<and> last (snd (snd (performCommand
         \<lparr>port = 1, address = 1, mode = ''rtu'', baudrate = 9600,
          precalculate_read_size = True, handle_local_echo = False\<rparr>
         \<lparr>ticks_after_read = 1050, incoming = [0x01, 0x05, 0x00]\<rparr>
         (Map.empty(1 \<mapsto> 1000)) 5 [0x00, 0x10, 0xFF]))) = Read 1000"
  using short_payload_and_default_read_size
    [where payloadToSlave = "[0x00, 0x10, 0xFF]" and m = "''rtu''" and functioncode = 5
       and self = "\<lparr>port = 1, address = 1, mode = ''rtu'', baudrate = 9600,
          precalculate_read_size = True, handle_local_echo = False\<rparr>"
       and e = "ValueError (TooShort ''payload'')"
       and request = "[0x01, 0x05, 0x00, 0x10, 0xFF, 0x54, 0x8C]"
       and w = "\<lparr>ticks_after_read = 1050, incoming = [0x01, 0x05, 0x00]\<rparr>"
       and t = "Map.empty(1 \<mapsto> 1000)"]
  by (simp add: model_defs)

lemma extractPayload_short:
  assumes "embedPayload a m fc p = Inr request" "length response < 4"
  shows "extractPayload response a m fc = Inl (ValueError TooShortResponse)"
  using embedPayload_Inr [OF assms(1)] assms(2)
  by (simp add: extractPayload_eq)

text \<open>
  Claim C6. Once the request is built, the baud rate is accepted (at least 1 and within
  the range of a float) and the local echo, if it is read, is the request, the response is
  read. When that read returns no byte the transaction fails with the
  \<^verbatim>\<open>IOError\<close> ``no answer'', and the validation of the frame is not reached: on the
  empty response it would have raised the \<^verbatim>\<open>ValueError\<close> for a too short response, which
  is what a response of 1 to 3 bytes gives. The two failures are different exceptions.
\<close>

theorem zero_length_read_is_no_answer:
  assumes "embedPayload (address self) (mode self) functioncode payloadToSlave = Inr request"
    and "1 \<le> baudrate self" and "float_of_int (baudrate self) \<noteq> None"
    and "handle_local_echo self \<longrightarrow> serial_read (int (length request)) (incoming w) = request"
    and "answer = serial_read (number_of_bytes_to_read self functioncode payloadToSlave)
           (if handle_local_echo self then drop (length request) (incoming w) else incoming w)"
  shows "fst (performCommand self w t functioncode payloadToSlave) =
     (if length answer = 0 then Inl (IOError NoAnswer)
      else if length answer < 4 then Inl (ValueError TooShortResponse)
      else extractPayload answer (address self) (mode self) functioncode)
     \<and> extractPayload [] (address self) (mode self) functioncode
           = Inl (ValueError TooShortResponse)
     \<and> IOError NoAnswer \<noteq> ValueError TooShortResponse"
proof -
  have "request \<noteq> []"
    using embedPayload_Inr [OF assms(1)] by auto
  then show ?thesis
    using assms(2,3,4) extractPayload_short [OF assms(1)]
    by (auto simp add: performCommand_eq [OF assms(1)] communicate_eq Let_def assms(5))
qed

theorem zero_length_read_is_no_answer_witness:
  "embedPayload 1 ''rtu'' 3 [0x00, 0x00, 0x00, 0x01]
     = Inr [0x01, 0x03, 0x00, 0x00, 0x00, 0x01, 0x84, 0x0A]
   \<and> (1::int) \<le> 9600 \<and> float_of_int 9600 \<noteq> None
   \<and> fst (performCommand
         \<lparr>port = 1, address = 1, mode = ''rtu'', baudrate = 9600,
          precalculate_read_size = True, handle_local_echo = False\<rparr>
         \<lparr>ticks_after_read = 1050, incoming = []\<rparr>
         (Map.empty(1 \<mapsto> 1000)) 3 [0x00, 0x00, 0x00, 0x01]) = Inl (IOError NoAnswer)
   \<and> fst (performCommand
         \<lparr>port = 1, address = 1, mode = ''rtu'', baudrate = 9600,
          precalculate_read_size = True, handle_local_echo = False\<rparr>
         \<lparr>ticks_after_read = 1050, incoming = [0x01, 0x03, 0x02]\<rparr>
         (Map.empty(1 \<mapsto> 1000)) 3 [0x00, 0x00, 0x00, 0x01])
       = Inl (ValueError TooShortResponse)
   \<and> extractPayload [] 1 ''rtu'' 3 = Inl (ValueError TooShortResponse)"
  using zero_length_read_is_no_answer
    [where self = "\<lparr>port = 1, address = 1, mode = ''rtu'', baudrate = 9600,
          precalculate_read_size = True, handle_local_echo = False\<rparr>"
       and functioncode = 3 and payloadToSlave = "[0x00, 0x00, 0x00, 0x01]"
       and request = "[0x01, 0x03, 0x00, 0x00, 0x00, 0x01, 0x84, 0x0A]"
       and w = "\<lparr>ticks_after_read = 1050, incoming = []\<rparr>"
       and t = "Map.empty(1 \<mapsto> 1000)" and answer = "[]"]
    zero_length_read_is_no_answer
    [where self = "\<lparr>port = 1, address = 1, mode = ''rtu'', baudrate = 9600,
          precalculate_read_size = True, handle_local_echo = False\<rparr>"
       and functioncode = 3 and payloadToSlave = "[0x00, 0x00, 0x00, 0x01]"
       and request = "[0x01, 0x03, 0x00, 0x00, 0x00, 0x01, 0x84, 0x0A]"
       and w = "\<lparr>ticks_after_read = 1050,
                  incoming = [0x01, 0x03, 0x02]\<rparr>"
       and t = "Map.empty(1 \<mapsto> 1000)" and answer = "[0x01, 0x03, 0x02]"]
  by (simp add: model_defs)

text \<open>
  Claim C9 as it is written says that a transaction that fails, for example with a read of
  no bytes, leaves the time recorded for its port unchanged. It does not: the source stores
  \<^verbatim>\<open>time.ticks_ms()\<close> right after \<^verbatim>\<open>serial.read\<close>, before it looks at the length of
  the answer. Here the port 1 had 1000 recorded, the read returns nothing, the transaction
  fails with ``no answer'', and 1050 is recorded.
\<close>

theorem failed_transaction_records_read_time:
  "fst (performCommand
         \<lparr>port = 1, address = 1, mode = ''rtu'', baudrate = 9600,
          precalculate_read_size = True, handle_local_echo = False\<rparr>
         \<lparr>ticks_after_read = 1050, incoming = []\<rparr>
         (Map.empty(1 \<mapsto> 1000)) 3 [0x00, 0x00, 0x00, 0x01]) = Inl (IOError NoAnswer)
   \<and> (Map.empty(1 \<mapsto> 1000 :: int)) (1 :: int) = Some 1000
   \<and> fst (snd (performCommand
         \<lparr>port = 1, address = 1, mode = ''rtu'', baudrate = 9600,
          precalculate_read_size = True, handle_local_echo = False\<rparr>
         \<lparr>ticks_after_read = 1050, incoming = []\<rparr>
         (Map.empty(1 \<mapsto> 1000)) 3 [0x00, 0x00, 0x00, 0x01])) 1 = Some 1050"
  by (simp add: model_defs)

text \<open>
  Claim C9, amended. The dictionary maps a port to the time of the last read of a response
  on that port, and an instrument on the same port finds that time there. The entry is
  written whenever the read of the response returns, whatever it returns and whether or not
  the transaction then fails. A transaction that fails before that read (an argument that
  does not build a request, a baud rate that is rejected, a local echo that differs from
  the request) leaves the dictionary unchanged.
\<close>

theorem read_time_recorded_at_every_response_read:
  "(embedPayload (address self) (mode self) functioncode payloadToSlave = Inl e
      \<longrightarrow> fst (snd (performCommand self w t functioncode payloadToSlave)) = t)
   \<and> (embedPayload (address self) (mode self) functioncode payloadToSlave = Inr request
        \<and> calculate_minimum_silent_period (baudrate self) = Inl e
      \<longrightarrow> fst (snd (performCommand self w t functioncode payloadToSlave)) = t)
   \<and> (embedPayload (address self) (mode self) functioncode payloadToSlave = Inr request
        \<and> 1 \<le> baudrate self \<and> float_of_int (baudrate self) \<noteq> None
        \<and> handle_local_echo self \<and> serial_read (int (length request)) (incoming w) \<noteq> request
      \<longrightarrow> fst (performCommand self w t functioncode payloadToSlave)
            = Inl (IOError LocalEchoMismatch)
          \<and> fst (snd (performCommand self w t functioncode payloadToSlave)) = t)
   \<and> (embedPayload (address self) (mode self) functioncode payloadToSlave = Inr request
        \<and> 1 \<le> baudrate self \<and> float_of_int (baudrate self) \<noteq> None
        \<and> (handle_local_echo self
             \<longrightarrow> serial_read (int (length request)) (incoming w) = request)
      \<longrightarrow> fst (snd (performCommand self w t functioncode payloadToSlave))
            = t(port self \<mapsto> ticks_after_read w)
          \<and> (port other = port self
               \<longrightarrow> fst (snd (performCommand self w t functioncode payloadToSlave)) (port other)
                     = Some (ticks_after_read w)))"
proof -
  have a: "fst (snd (performCommand self w t functioncode payloadToSlave)) = t"
    if "embedPayload (address self) (mode self) functioncode payloadToSlave = Inl e"
  proof -
    have "\<exists>e'. andthen c (andthen d
            (embedPayload (address self) (mode self) functioncode payloadToSlave)) = Inl e'"
      for c d
      using that by (cases c; cases d) simp_all
    then obtain e' where "andthen (checkFunctioncode functioncode None)
             (andthen (checkString (Bytearray payloadToSlave) ''payload'' 0 None)
                (embedPayload (address self) (mode self) functioncode payloadToSlave)) = Inl e'"
      by blast
    then show ?thesis
      by (simp add: performCommand_def)
  qed
  have nonempty: "request \<noteq> []"
    if "embedPayload (address self) (mode self) functioncode payloadToSlave = Inr request"
    using embedPayload_Inr [OF that] by auto
  have p: "fst (snd (performCommand self w t functioncode payloadToSlave)) = t"
    if built: "embedPayload (address self) (mode self) functioncode payloadToSlave = Inr request"
      and rejected: "calculate_minimum_silent_period (baudrate self) = Inl e"
  proof -
    obtain e' where "communicate self w t request
        (number_of_bytes_to_read self functioncode payloadToSlave) = (Inl e', t, [])"
      using communicate_no_period [OF rejected] by blast
    then show ?thesis
      by (simp add: performCommand_eq [OF built])
  qed
  have b: "fst (performCommand self w t functioncode payloadToSlave)
            = Inl (IOError LocalEchoMismatch)
          \<and> fst (snd (performCommand self w t functioncode payloadToSlave)) = t"
    if "embedPayload (address self) (mode self) functioncode payloadToSlave = Inr request"
      "1 \<le> baudrate self" "float_of_int (baudrate self) \<noteq> None" "handle_local_echo self"
      "serial_read (int (length request)) (incoming w) \<noteq> request"
    using that nonempty [OF that(1)]
    by (simp add: performCommand_eq communicate_eq Let_def)
  have c: "fst (snd (performCommand self w t functioncode payloadToSlave))
            = t(port self \<mapsto> ticks_after_read w)"
    if "embedPayload (address self) (mode self) functioncode payloadToSlave = Inr request"
      "1 \<le> baudrate self" "float_of_int (baudrate self) \<noteq> None"
      "handle_local_echo self \<longrightarrow> serial_read (int (length request)) (incoming w) = request"
    using that nonempty [OF that(1)]
    by (auto simp add: performCommand_eq communicate_eq Let_def split: sum.splits)
  from a p b c show ?thesis by auto
qed

theorem read_time_recorded_at_every_response_read_witness:
  "embedPayload 1 ''rtu'' 200 [0x00, 0x00, 0x00, 0x01] = Inl (ValueError (TooLarge ''functioncode''))
   \<and> fst (snd (performCommand
         \<lparr>port = 1, address = 1, mode = ''rtu'', baudrate = 9600,
          precalculate_read_size = True, handle_local_echo = False\<rparr>
         \<lparr>ticks_after_read = 1050, incoming = []\<rparr>
         (Map.empty(1 \<mapsto> 1000)) 200 [0x00, 0x00, 0x00, 0x01])) 1 = Some 1000
   \<and> embedPayload 1 ''rtu'' 3 [0x00, 0x00, 0x00, 0x01]
         = Inr [0x01, 0x03, 0x00, 0x00, 0x00, 0x01, 0x84, 0x0A]
   \<and> calculate_minimum_silent_period 0 = Inl (ValueError (TooSmall ''baudrate''))
   \<and> fst (snd (performCommand
         \<lparr>port = 1, address = 1, mode = ''rtu'', baudrate = 0,
          precalculate_read_size = True, handle_local_echo = False\<rparr>
         \<lparr>ticks_after_read = 1050, incoming = []\<rparr>
         (Map.empty(1 \<mapsto> 1000)) 3 [0x00, 0x00, 0x00, 0x01])) 1 = Some 1000
   \<and> (1::int) \<le> 9600 \<and> float_of_int 9600 \<noteq> None
   \<and> serial_read 8 [0x01, 0x03, 0x00, 0x00, 0x00, 0x01, 0x84, 0x0B, 0x01, 0x03, 0x02]
         \<noteq> [0x01, 0x03, 0x00, 0x00, 0x00, 0x01, 0x84, 0x0A]
   \<and> performCommand
         \<lparr>port = 1, address = 1, mode = ''rtu'', baudrate = 9600,
          precalculate_read_size = True, handle_local_echo = True\<rparr>
         \<lparr>ticks_after_read = 1050,
          incoming = [0x01, 0x03, 0x00, 0x00, 0x00, 0x01, 0x84, 0x0B, 0x01, 0x03, 0x02]\<rparr>
         (Map.empty(1 \<mapsto> 1000)) 3 [0x00, 0x00, 0x00, 0x01]
       = (Inl (IOError LocalEchoMismatch), Map.empty(1 \<mapsto> 1000),
          [Write [0x01, 0x03, 0x00, 0x00, 0x00, 0x01, 0x84, 0x0A], Read 8])
   \<and> serial_read 8 [0x01, 0x03, 0x00, 0x00, 0x00, 0x01, 0x84, 0x0A, 0x01, 0x03, 0x02]
         = [0x01, 0x03, 0x00, 0x00, 0x00, 0x01, 0x84, 0x0A]
   \<and> performCommand
         \<lparr>port = 1, address = 1, mode = ''rtu'', baudrate = 9600,
          precalculate_read_size = True, handle_local_echo = True\<rparr>
         \<lparr>ticks_after_read = 1050,
          incoming = [0x01, 0x03, 0x00, 0x00, 0x00, 0x01, 0x84, 0x0A, 0x01, 0x03, 0x02]\<rparr>
         (Map.empty(1 \<mapsto> 1000)) 3 [0x00, 0x00, 0x00, 0x01]
       = (Inl (ValueError TooShortResponse), Map.empty(1 \<mapsto> 1050),
          [Write [0x01, 0x03, 0x00, 0x00, 0x00, 0x01, 0x84, 0x0A], Read 8,
           Read 7])
   \<and> port \<lparr>port = 1, address = 9, mode = ''rtu'', baudrate = 9600,
          precalculate_read_size = True, handle_local_echo = False\<rparr> = 1"
  using read_time_recorded_at_every_response_read
    [where self = "\<lparr>port = 1, address = 1, mode = ''rtu'', baudrate = 9600,
          precalculate_read_size = True, handle_local_echo = False\<rparr>"
       and functioncode = 200 and payloadToSlave = "[0x00, 0x00, 0x00, 0x01]"
       and e = "ValueError (TooLarge ''functioncode'')"
       and w = "\<lparr>ticks_after_read = 1050, incoming = []\<rparr>"
       and t = "Map.empty(1 \<mapsto> 1000)"]
    read_time_recorded_at_every_response_read
    [where self = "\<lparr>port = 1, address = 1, mode = ''rtu'', baudrate = 0,
          precalculate_read_size = True, handle_local_echo = False\<rparr>"
       and functioncode = 3 and payloadToSlave = "[0x00, 0x00, 0x00, 0x01]"
       and request = "[0x01, 0x03, 0x00, 0x00, 0x00, 0x01, 0x84, 0x0A]"
       and e = "ValueError (TooSmall ''baudrate'')"
       and w = "\<lparr>ticks_after_read = 1050, incoming = []\<rparr>"
       and t = "Map.empty(1 \<mapsto> 1000)"]
    read_time_recorded_at_every_response_read
    [where self = "\<lparr>port = 1, address = 1, mode = ''rtu'', baudrate = 9600,
          precalculate_read_size = True, handle_local_echo = True\<rparr>"
       and functioncode = 3 and payloadToSlave = "[0x00, 0x00, 0x00, 0x01]"
       and request = "[0x01, 0x03, 0x00, 0x00, 0x00, 0x01, 0x84, 0x0A]"
       and w = "\<lparr>ticks_after_read = 1050,
          incoming = [0x01, 0x03, 0x00, 0x00, 0x00, 0x01, 0x84, 0x0B, 0x01, 0x03, 0x02]\<rparr>"
       and t = "Map.empty(1 \<mapsto> 1000)"]
    read_time_recorded_at_every_response_read
    [where self = "\<lparr>port = 1, address = 1, mode = ''rtu'', baudrate = 9600,
          precalculate_read_size = True, handle_local_echo = True\<rparr>"
       and functioncode = 3 and payloadToSlave = "[0x00, 0x00, 0x00, 0x01]"
       and request = "[0x01, 0x03, 0x00, 0x00, 0x00, 0x01, 0x84, 0x0A]"
       and w = "\<lparr>ticks_after_read = 1050,
          incoming = [0x01, 0x03, 0x00, 0x00, 0x00, 0x01, 0x84, 0x0A, 0x01, 0x03, 0x02]\<rparr>"
       and t = "Map.empty(1 \<mapsto> 1000)"
       and other = "\<lparr>port = 1, address = 9, mode = ''rtu'', baudrate = 9600,
          precalculate_read_size = True, handle_local_echo = False\<rparr>"]
  by (simp add: model_defs)

lemma checkResponseWriteData_Str: "checkResponseWriteData payload (Str s) \<noteq> Inr ()"
  by (simp add: checkResponseWriteData_def checkString_def checkInt_def checkNumerical_def)

lemma createBitpattern_5:
  "createBitpattern 5 v = Inr d \<Longrightarrow> d = Str [CHR 0x00, CHR 0x00] \<or> d = Str [CHR 0xFF, CHR 0x00]"
  by (auto simp add: createBitpattern_def checkFunctioncode_def checkInt_def checkNumerical_def
        split: if_splits)

lemma andthen_Inr: "andthen c k = Inr x \<Longrightarrow> c = Inr () \<and> k = Inr x"
  by (cases c) simp_all

lemma bind_exn_Inr: "bind_exn c f = Inr x \<Longrightarrow> \<exists>y. c = Inr y \<and> f y = Inr x"
  by (cases c) simp_all

lemma check_fc5_never_passes:
  "checkResponseContents 5 registeraddress v numberOfDecimals is_signed numberOfRegisters payload
     \<noteq> Inr ()"
proof
  assume "checkResponseContents 5 registeraddress v numberOfDecimals is_signed numberOfRegisters
            payload = Inr ()"
  then have "bind_exn (createBitpattern 5 v) (checkResponseWriteData payload) = Inr ()"
    unfolding checkResponseContents_def
    by (auto dest!: andthen_Inr)
  then obtain d where "createBitpattern 5 v = Inr d" "checkResponseWriteData payload d = Inr ()"
    by (auto dest: bind_exn_Inr)
  then show False
    using createBitpattern_5 checkResponseWriteData_Str by blast
qed

text \<open>
  Claim C8. \<^verbatim>\<open>_createBitpattern\<close> accepts the function codes 5 and 15 and the values 0
  and 1 only, and gives the characters \<^verbatim>\<open>FF 00\<close> or \<^verbatim>\<open>00 00\<close> for code 5 and \<^verbatim>\<open>01\<close>
  or \<^verbatim>\<open>00\<close> for code 15, but as a \<^verbatim>\<open>str\<close>. The check of the echoed write data
  (\<^verbatim>\<open>_checkResponseWriteData\<close>) demands a \<^verbatim>\<open>bytearray\<close>, so for function code 5 it
  raises \<^verbatim>\<open>TypeError\<close> on the correct echo \<^verbatim>\<open>00 10 FF 00\<close> of a write of 1 to the
  address 16, and the checks of a response to function code 5 pass for no response at
  all. The same echo passes for function code 6, whose write data is packed into a
  \<^verbatim>\<open>bytearray\<close>.
\<close>

theorem bit_pattern_is_str_and_fails_response_check:
  "createBitpattern 5 1 = Inr (Str [CHR 0xFF, CHR 0x00])
   \<and> createBitpattern 5 0 = Inr (Str [CHR 0x00, CHR 0x00])
   \<and> createBitpattern 15 1 = Inr (Str [CHR 0x01])
   \<and> createBitpattern 15 0 = Inr (Str [CHR 0x00])
   \<and> createBitpattern 5 2 = Inl (ValueError (TooLarge ''inputvalue''))
   \<and> createBitpattern 5 (- 1) = Inl (ValueError (TooSmall ''inputvalue''))
   \<and> createBitpattern 6 1 = Inl (ValueError FunctioncodeNotAllowed)
   \<and> checkResponseWriteData [0x00, 0x10, 0xFF, 0x00] (Str [CHR 0xFF, CHR 0x00]) = Inl TypeError
   \<and> checkResponseContents 5 16 1 0 False 1 [0x00, 0x10, 0xFF, 0x00] = Inl TypeError
   \<and> checkResponseContents 6 16 0xFF00 0 False 1 [0x00, 0x10, 0xFF, 0x00] = Inr ()
   \<and> checkResponseContents 5 registeraddress v numberOfDecimals is_signed numberOfRegisters
         payload \<noteq> Inr ()"
proof -
  have "checkResponseContents 5 registeraddress v numberOfDecimals is_signed numberOfRegisters
         payload \<noteq> Inr ()"
    by (rule check_fc5_never_passes)
  then show ?thesis
    by (simp add: model_defs)
qed

end
